theory Spec2Isabelle
  imports Main "HOL-Library.Word"
begin

section \<open>Record model (models.py)\<close>

text \<open>
  A timestamp is the value of SQLite's \<open>CURRENT_TIMESTAMP\<close> read through
  \<open>datetime.fromisoformat\<close>, kept abstract as a number of seconds. The encrypted
  password is an opaque sequence of bytes. \<open>created_at\<close> defaults to \<open>None\<close> in the
  dataclass and is populated from the database.

  A Python \<open>str\<close> is held as the bytes of its UTF-8 form, one \<open>char\<close> a byte. A
  \<open>str\<close> may hold a lone surrogate (a code point from U+D800 to U+DFFF), which strict
  UTF-8 cannot encode; it is held in the three-byte form that the pattern of UTF-8
  gives it, 0xED followed by a byte from 0xA0 to 0xBF and one more byte. No other
  code point has that form, so \<open>has_surrogate\<close> tells the strings that SQLite's
  binding cannot encode.
\<close>

type_synonym timestamp = nat
type_synonym bytes = "8 word list"

record PasswordEntry =
  service :: string
  username :: string
  encrypted_password :: bytes
  created_at :: "timestamp option"

fun has_surrogate :: "string \<Rightarrow> bool" where
  "has_surrogate (a # b # cs) =
     ((a = CHR 0xED \<and> 160 \<le> (of_char b :: nat) \<and> (of_char b :: nat) \<le> 191)
      \<or> has_surrogate (b # cs))"
| "has_surrogate cs = False"

section \<open>The database file\<close>

text \<open>
  One row of table \<open>passwords\<close> as \<open>init_db\<close> declares it: an autoincremented integer
  primary key, three \<open>NOT NULL\<close> columns and \<open>created_at\<close>, which every insert of this
  program leaves to its default \<open>CURRENT_TIMESTAMP\<close>. The table carries no \<open>UNIQUE\<close>
  constraint, and both indexes are created with plain \<open>CREATE INDEX\<close>. The text
  columns hold what was bound to an INSERT or UPDATE, bytes of strict UTF-8.
\<close>

record row =
  col_id :: nat
  col_service :: string
  col_username :: string
  col_encrypted_password :: bytes
  col_created_at :: timestamp

text \<open>
  The file holds the table (\<open>None\<close> while it has not been created; otherwise its rows in
  rowid order, the order in which SQLite scans them), the \<open>AUTOINCREMENT\<close> counter and
  the indexes as pairs of index name and indexed column.
\<close>

record db_file =
  passwords :: "row list option"
  sqlite_sequence :: nat
  indexes :: "(string \<times> string) list"

datatype level = DEBUG | INFO | SUCCESS | WARNING | ERROR | CRITICAL

text \<open>
  The world a call runs in: the database file, the handles of the connections that have
  been opened and not closed, the next fresh handle, and the levels of the messages
  handed to the logger.
\<close>

record world =
  db :: db_file
  open_conns :: "nat list"
  next_handle :: nat
  logged :: "level list"

definition log_msg :: "level \<Rightarrow> world \<Rightarrow> world" where
  "log_msg l w = w\<lparr>logged := logged w @ [l]\<rparr>"

definition stored_rows :: "world \<Rightarrow> row list" where
  "stored_rows w = (case passwords (db w) of None \<Rightarrow> [] | Some rs \<Rightarrow> rs)"

section \<open>The sqlite3 library\<close>

text \<open>
  Exceptions are values. \<open>IntegrityError\<close> is \<open>sqlite3.IntegrityError\<close>, \<open>OtherError\<close>
  any other subclass of \<open>sqlite3.Error\<close>; these are what \<open>except sqlite3.Error\<close>
  catches. \<open>UnicodeEncodeError\<close> and \<open>OverflowError\<close> are the Python exceptions that
  binding a parameter raises; they are no subclasses of \<open>sqlite3.Error\<close>. A result
  \<open>Inl e\<close> is exception \<open>e\<close> raised, \<open>Inr v\<close> is \<open>v\<close> returned.

  Storage faults (a file that cannot be opened, disk errors, a locked database, a value
  SQLite refuses) come from outside the program, so every operation takes a fault
  assignment: \<open>F c = Some e\<close> says that the library call \<open>c\<close> of this operation raises
  \<open>e\<close>. For the k-th statement that the operation executes, \<open>Prepare k\<close> is compiling
  it and opening its implicit transaction, before the parameters are bound, and
  \<open>Execute k\<close> is running it, after they are bound.
\<close>

datatype sqlite_error = IntegrityError | OtherError

datatype exn = Sqlite sqlite_error | UnicodeEncodeError | OverflowError

datatype call = Connect | Pragma | Prepare nat | Execute nat | Fetch | Commit | Rollback

type_synonym faults = "call \<Rightarrow> sqlite_error option"

definition no_faults :: faults where
  "no_faults = (\<lambda>c. None)"

definition fails_at :: "call \<Rightarrow> sqlite_error \<Rightarrow> faults" where
  "fails_at c e = (\<lambda>c'. if c' = c then Some e else None)"

definition faulty :: "faults \<Rightarrow> call list \<Rightarrow> bool" where
  "faulty F cs = (\<exists>c \<in> set cs. F c \<noteq> None)"

subsection \<open>Binding parameters\<close>

text \<open>
  The values given to \<open>conn.execute\<close> for the \<open>?\<close> of a statement: a \<open>str\<close> or a
  \<open>bytes\<close>. Binding a \<open>str\<close> encodes it as UTF-8, which raises \<open>UnicodeEncodeError\<close> on
  a lone surrogate; a \<open>str\<close> or \<open>bytes\<close> of more than \<open>INT_MAX\<close> bytes raises
  \<open>OverflowError\<close>. The parameters are bound in their order, and the first failure is
  the one raised.
\<close>

datatype param = Text string | Blob bytes

definition INT_MAX :: nat where
  "INT_MAX = 2147483647"

fun bind_param :: "param \<Rightarrow> exn option" where
  "bind_param (Text s) =
     (if has_surrogate s then Some UnicodeEncodeError
      else if length s > INT_MAX then Some OverflowError
      else None)"
| "bind_param (Blob b) = (if length b > INT_MAX then Some OverflowError else None)"

fun bind_parameters :: "param list \<Rightarrow> exn option" where
  "bind_parameters [] = None"
| "bind_parameters (p # ps) =
     (case bind_param p of Some x \<Rightarrow> Some x | None \<Rightarrow> bind_parameters ps)"

text \<open>The strings and the entries that every statement of this program can bind.\<close>

definition bindable_text :: "string \<Rightarrow> bool" where
  "bindable_text s = (bind_param (Text s) = None)"

definition bindable_entry :: "PasswordEntry \<Rightarrow> bool" where
  "bindable_entry e =
     (bind_parameters [Text (service e), Text (username e), Blob (encrypted_password e)]
        = None)"

text \<open>
  A connection object: its handle and the transaction it has open, if any, as the
  contents the file will have once the transaction commits.
\<close>

record connection =
  conn_handle :: nat
  txn :: "db_file option"

definition view :: "connection \<Rightarrow> world \<Rightarrow> db_file" where
  "view c w = (case txn c of None \<Rightarrow> db w | Some f \<Rightarrow> f)"

subsection \<open>Statements\<close>

text \<open>
  What each statement of the program does to the file. A statement on a table that
  does not exist fails when it is compiled.
\<close>

text \<open>\<open>CREATE TABLE IF NOT EXISTS passwords (...)\<close>\<close>

definition sql_create_table :: "db_file \<Rightarrow> sqlite_error + db_file" where
  "sql_create_table f =
     (case passwords f of None \<Rightarrow> Inr (f\<lparr>passwords := Some []\<rparr>) | Some rs \<Rightarrow> Inr f)"

text \<open>\<open>CREATE INDEX IF NOT EXISTS name ON passwords (column)\<close>\<close>

definition sql_create_index :: "string \<Rightarrow> string \<Rightarrow> db_file \<Rightarrow> sqlite_error + db_file" where
  "sql_create_index name column f =
     (case passwords f of
        None \<Rightarrow> Inl OtherError
      | Some rs \<Rightarrow>
          if name \<in> set (map fst (indexes f)) then Inr f
          else Inr (f\<lparr>indexes := indexes f @ [(name, column)]\<rparr>))"

text \<open>
  \<open>INSERT INTO passwords (service, username, encrypted_password) VALUES (?, ?, ?)\<close>:
  the new row takes the next rowid and, for \<open>created_at\<close>, the reading \<open>now\<close> of the
  clock (\<open>CURRENT_TIMESTAMP\<close>); the statement changes one row. No column is checked
  for duplicates, since the schema declares none unique.
\<close>

definition sql_insert ::
  "timestamp \<Rightarrow> string \<Rightarrow> string \<Rightarrow> bytes \<Rightarrow> db_file \<Rightarrow> sqlite_error + (nat \<times> db_file)" where
  "sql_insert now s u p f =
     (case passwords f of
        None \<Rightarrow> Inl OtherError
      | Some rs \<Rightarrow>
          (let i = Suc (fold max (map col_id rs) (sqlite_sequence f));
               r = \<lparr>col_id = i, col_service = s, col_username = u,
                    col_encrypted_password = p, col_created_at = now\<rparr>
           in Inr (1, f\<lparr>passwords := Some (rs @ [r]), sqlite_sequence := i\<rparr>)))"

text \<open>
  \<open>UPDATE passwords SET service = ?, username = ?, encrypted_password = ? WHERE service = ?\<close>
\<close>

definition set_columns :: "string \<Rightarrow> string \<Rightarrow> bytes \<Rightarrow> row \<Rightarrow> row" where
  "set_columns s u p r = r\<lparr>col_service := s, col_username := u, col_encrypted_password := p\<rparr>"

definition sql_update ::
  "string \<Rightarrow> string \<Rightarrow> bytes \<Rightarrow> string \<Rightarrow> db_file \<Rightarrow> sqlite_error + (nat \<times> db_file)" where
  "sql_update s u p old f =
     (case passwords f of
        None \<Rightarrow> Inl OtherError
      | Some rs \<Rightarrow>
          Inr (length (filter (\<lambda>r. col_service r = old) rs),
               f\<lparr>passwords :=
                   Some (map (\<lambda>r. if col_service r = old then set_columns s u p r else r) rs)\<rparr>))"

text \<open>\<open>DELETE FROM passwords WHERE service = ?\<close>\<close>

definition sql_delete :: "string \<Rightarrow> db_file \<Rightarrow> sqlite_error + (nat \<times> db_file)" where
  "sql_delete old f =
     (case passwords f of
        None \<Rightarrow> Inl OtherError
      | Some rs \<Rightarrow>
          Inr (length (filter (\<lambda>r. col_service r = old) rs),
               f\<lparr>passwords := Some (filter (\<lambda>r. col_service r \<noteq> old) rs)\<rparr>))"

text \<open>
  \<open>SELECT service, username, encrypted_password, created_at FROM passwords [WHERE ...]\<close>.
  The statements have no \<open>ORDER BY\<close>; the rows come in the order of the table, which
  is also the order among the rows of one key in \<open>idx_service\<close> and \<open>idx_username\<close>.
\<close>

definition sql_select :: "(row \<Rightarrow> bool) \<Rightarrow> db_file \<Rightarrow> sqlite_error + row list" where
  "sql_select P f =
     (case passwords f of None \<Rightarrow> Inl OtherError | Some rs \<Rightarrow> Inr (filter P rs))"

subsection \<open>Connections\<close>

text \<open>
  \<open>conn.execute\<close> of an INSERT, UPDATE or DELETE: the statement is compiled, a
  transaction is opened implicitly, the parameters are bound and the statement runs.
  It changes the connection's view only; the file changes at \<open>commit\<close>. When binding
  or running fails the transaction stays open, with nothing changed in it.
\<close>

definition execute_dml ::
  "faults \<Rightarrow> nat \<Rightarrow> (db_file \<Rightarrow> sqlite_error + (nat \<times> db_file)) \<Rightarrow> param list
     \<Rightarrow> connection \<Rightarrow> world \<Rightarrow> (exn + nat) \<times> connection" where
  "execute_dml F k stmt params c w =
     (case F (Prepare k) of
        Some e \<Rightarrow> (Inl (Sqlite e), c)
      | None \<Rightarrow>
          (case stmt (view c w) of
             Inl e \<Rightarrow> (Inl (Sqlite e), c)
           | Inr (rowcount, f') \<Rightarrow>
               (let c1 = c\<lparr>txn := Some (view c w)\<rparr>
                in case bind_parameters params of
                     Some x \<Rightarrow> (Inl x, c1)
                   | None \<Rightarrow>
                       (case F (Execute k) of
                          Some e \<Rightarrow> (Inl (Sqlite e), c1)
                        | None \<Rightarrow> (Inr rowcount, c\<lparr>txn := Some f'\<rparr>)))))"

text \<open>
  A schema statement binds nothing and opens no transaction: it takes effect in the
  file at once, and one fault stands for compiling and running it.
\<close>

definition execute_ddl ::
  "faults \<Rightarrow> nat \<Rightarrow> (db_file \<Rightarrow> sqlite_error + db_file) \<Rightarrow> connection \<Rightarrow> world
     \<Rightarrow> (exn + unit) \<times> world" where
  "execute_ddl F k stmt c w =
     (case F (Execute k) of
        Some e \<Rightarrow> (Inl (Sqlite e), w)
      | None \<Rightarrow>
          (case stmt (db w) of
             Inl e \<Rightarrow> (Inl (Sqlite e), w)
           | Inr f' \<Rightarrow> (Inr (), w\<lparr>db := f'\<rparr>)))"

text \<open>\<open>conn.execute\<close> of a SELECT: compiled, parameters bound, run; no transaction.\<close>

definition execute_query ::
  "faults \<Rightarrow> nat \<Rightarrow> (db_file \<Rightarrow> sqlite_error + row list) \<Rightarrow> param list
     \<Rightarrow> connection \<Rightarrow> world \<Rightarrow> exn + row list" where
  "execute_query F k q params c w =
     (case F (Prepare k) of
        Some e \<Rightarrow> Inl (Sqlite e)
      | None \<Rightarrow>
          (case q (view c w) of
             Inl e \<Rightarrow> Inl (Sqlite e)
           | Inr rs \<Rightarrow>
               (case bind_parameters params of
                  Some x \<Rightarrow> Inl x
                | None \<Rightarrow>
                    (case F (Execute k) of
                       Some e \<Rightarrow> Inl (Sqlite e)
                     | None \<Rightarrow> Inr rs))))"

text \<open>\<open>cursor.fetchall()\<close> and \<open>cursor.fetchone()\<close>\<close>

definition fetchall :: "faults \<Rightarrow> row list \<Rightarrow> exn + row list" where
  "fetchall F rs = (case F Fetch of Some e \<Rightarrow> Inl (Sqlite e) | None \<Rightarrow> Inr rs)"

definition fetchone :: "faults \<Rightarrow> row list \<Rightarrow> exn + row option" where
  "fetchone F rs =
     (case F Fetch of
        Some e \<Rightarrow> Inl (Sqlite e)
      | None \<Rightarrow> (case rs of [] \<Rightarrow> Inr None | r # _ \<Rightarrow> Inr (Some r)))"

text \<open>\<open>conn.commit()\<close> and \<open>conn.rollback()\<close> do nothing when no transaction is open.\<close>

definition commit ::
  "faults \<Rightarrow> connection \<Rightarrow> world \<Rightarrow> (exn + unit) \<times> connection \<times> world" where
  "commit F c w =
     (case txn c of
        None \<Rightarrow> (Inr (), c, w)
      | Some f \<Rightarrow>
          (case F Commit of
             Some e \<Rightarrow> (Inl (Sqlite e), c, w)
           | None \<Rightarrow> (Inr (), c\<lparr>txn := None\<rparr>, w\<lparr>db := f\<rparr>)))"

definition rollback :: "faults \<Rightarrow> connection \<Rightarrow> (exn + unit) \<times> connection" where
  "rollback F c =
     (case txn c of
        None \<Rightarrow> (Inr (), c)
      | Some f \<Rightarrow>
          (case F Rollback of
             Some e \<Rightarrow> (Inl (Sqlite e), c)
           | None \<Rightarrow> (Inr (), c\<lparr>txn := None\<rparr>)))"

text \<open>
  Leaving \<open>with conn:\<close>. The context manager of a sqlite3 connection commits when the
  block ended normally and rolls back when it raised, the exception then going on to
  the caller. It does not close the connection (the library reference of sqlite3: the
  context manager neither implicitly opens a new transaction nor closes the
  connection), so the handle stays in \<open>open_conns\<close>. The connection object is dropped
  afterwards, and a transaction still open on it never reaches the file.
\<close>

definition conn_exit ::
  "faults \<Rightarrow> (exn + 'a) \<times> connection \<times> world \<Rightarrow> (exn + 'a) \<times> world" where
  "conn_exit F m =
     (case m of
        (Inr v, c, w) \<Rightarrow>
          (case commit F c w of
             (Inl e, c', w') \<Rightarrow> (Inl e, w')
           | (Inr u, c', w') \<Rightarrow> (Inr v, w'))
      | (Inl e, c, w) \<Rightarrow>
          (case rollback F c of
             (Inl e', c') \<Rightarrow> (Inl e', w)
           | (Inr u, c') \<Rightarrow> (Inl e, w)))"

section \<open>Storage engine (database.py)\<close>

text \<open>
  \<open>get_connection\<close> and \<open>init_db\<close> log and raise again what \<open>except sqlite3.Error\<close>
  catches; any other exception passes their handlers untouched.
\<close>

definition get_connection :: "faults \<Rightarrow> world \<Rightarrow> (exn + connection) \<times> world" where
  "get_connection F w =
     (case F Connect of
        Some e \<Rightarrow> (Inl (Sqlite e), log_msg CRITICAL w)
      | None \<Rightarrow>
          (let conn = \<lparr>conn_handle = next_handle w, txn = None\<rparr>;
               w1 = w\<lparr>open_conns := next_handle w # open_conns w,
                      next_handle := Suc (next_handle w)\<rparr>
           in case F Pragma of
                Some e \<Rightarrow> (Inl (Sqlite e), log_msg CRITICAL w1)
              | None \<Rightarrow> (Inr conn, w1)))"

definition init_db_body ::
  "faults \<Rightarrow> connection \<Rightarrow> world \<Rightarrow> (exn + unit) \<times> connection \<times> world" where
  "init_db_body F conn w =
     (case execute_ddl F 0 sql_create_table conn w of
        (Inl e, w1) \<Rightarrow> (Inl e, conn, w1)
      | (Inr u, w1) \<Rightarrow>
          (case execute_ddl F 1 (sql_create_index ''idx_service'' ''service'') conn w1 of
             (Inl e, w2) \<Rightarrow> (Inl e, conn, w2)
           | (Inr u, w2) \<Rightarrow>
               (case execute_ddl F 2 (sql_create_index ''idx_username'' ''username'') conn w2 of
                  (Inl e, w3) \<Rightarrow> (Inl e, conn, w3)
                | (Inr u, w3) \<Rightarrow> (Inr (), conn, w3))))"

definition init_db_handler :: "exn \<Rightarrow> world \<Rightarrow> (exn + unit) \<times> world" where
  "init_db_handler e w =
     (case e of
        Sqlite x \<Rightarrow> (Inl e, log_msg ERROR w)
      | UnicodeEncodeError \<Rightarrow> (Inl e, w)
      | OverflowError \<Rightarrow> (Inl e, w))"

definition init_db :: "faults \<Rightarrow> world \<Rightarrow> (exn + unit) \<times> world" where
  "init_db F w =
     (case get_connection F w of
        (Inl e, w1) \<Rightarrow> init_db_handler e w1
      | (Inr conn, w1) \<Rightarrow>
          (case conn_exit F (init_db_body F conn w1) of
             (Inl e, w2) \<Rightarrow> init_db_handler e w2
           | (Inr u, w2) \<Rightarrow> (Inr (), log_msg INFO w2)))"

section \<open>CRUD operations (database.py)\<close>

text \<open>
  Every operation is \<open>try: with get_connection() as conn: ... except ...\<close>: the
  handlers see what \<open>get_connection\<close>, the block or the exit of \<open>with\<close> raised. They
  are \<open>except sqlite3.IntegrityError\<close> and \<open>except sqlite3.Error\<close>, so an exception that
  is no \<open>sqlite3.Error\<close> goes on to the caller.
\<close>

definition entry_of_row :: "row \<Rightarrow> PasswordEntry" where
  "entry_of_row r =
     \<lparr>service = col_service r, username = col_username r,
      encrypted_password = col_encrypted_password r,
      created_at = Some (col_created_at r)\<rparr>"

subsection \<open>create_password\<close>

definition create_body ::
  "faults \<Rightarrow> timestamp \<Rightarrow> PasswordEntry \<Rightarrow> connection \<Rightarrow> world
     \<Rightarrow> (exn + bool) \<times> connection \<times> world" where
  "create_body F now entry conn w =
     (case execute_dml F 0
             (sql_insert now (service entry) (username entry) (encrypted_password entry))
             [Text (service entry), Text (username entry), Blob (encrypted_password entry)]
             conn w of
        (Inl e, c1) \<Rightarrow> (Inl e, c1, w)
      | (Inr rowcount, c1) \<Rightarrow>
          (case commit F c1 w of
             (Inl e, c2, w2) \<Rightarrow> (Inl e, c2, w2)
           | (Inr u, c2, w2) \<Rightarrow> (Inr (rowcount > 0), c2, log_msg SUCCESS w2)))"

definition create_handler :: "exn \<Rightarrow> world \<Rightarrow> (exn + bool) \<times> world" where
  "create_handler e w =
     (case e of
        Sqlite IntegrityError \<Rightarrow> (Inr False, log_msg WARNING w)
      | Sqlite OtherError \<Rightarrow> (Inr False, log_msg ERROR w)
      | UnicodeEncodeError \<Rightarrow> (Inl e, w)
      | OverflowError \<Rightarrow> (Inl e, w))"

definition create_password ::
  "faults \<Rightarrow> timestamp \<Rightarrow> PasswordEntry \<Rightarrow> world \<Rightarrow> (exn + bool) \<times> world" where
  "create_password F now entry w =
     (case get_connection F w of
        (Inl e, w1) \<Rightarrow> create_handler e w1
      | (Inr conn, w1) \<Rightarrow>
          (case conn_exit F (create_body F now entry conn w1) of
             (Inl e, w2) \<Rightarrow> create_handler e w2
           | (Inr b, w2) \<Rightarrow> (Inr b, w2)))"

subsection \<open>read_all_passwords\<close>

definition read_all_body ::
  "faults \<Rightarrow> connection \<Rightarrow> world
     \<Rightarrow> (exn + PasswordEntry list) \<times> connection \<times> world" where
  "read_all_body F conn w =
     (case execute_query F 0 (sql_select (\<lambda>r. True)) [] conn w of
        Inl e \<Rightarrow> (Inl e, conn, w)
      | Inr cursor \<Rightarrow>
          (case fetchall F cursor of
             Inl e \<Rightarrow> (Inl e, conn, w)
           | Inr rs \<Rightarrow> (Inr (map entry_of_row rs), conn, w)))"

definition read_all_handler :: "exn \<Rightarrow> world \<Rightarrow> (exn + PasswordEntry list) \<times> world" where
  "read_all_handler e w =
     (case e of
        Sqlite x \<Rightarrow> (Inr [], log_msg ERROR w)
      | UnicodeEncodeError \<Rightarrow> (Inl e, w)
      | OverflowError \<Rightarrow> (Inl e, w))"

definition read_all_passwords ::
  "faults \<Rightarrow> world \<Rightarrow> (exn + PasswordEntry list) \<times> world" where
  "read_all_passwords F w =
     (case get_connection F w of
        (Inl e, w1) \<Rightarrow> read_all_handler e w1
      | (Inr conn, w1) \<Rightarrow>
          (case conn_exit F (read_all_body F conn w1) of
             (Inl e, w2) \<Rightarrow> read_all_handler e w2
           | (Inr es, w2) \<Rightarrow> (Inr es, w2)))"

subsection \<open>read_password_by_service, read_password_by_username\<close>

definition read_one_body ::
  "faults \<Rightarrow> (row \<Rightarrow> bool) \<Rightarrow> param list \<Rightarrow> connection \<Rightarrow> world
     \<Rightarrow> (exn + PasswordEntry option) \<times> connection \<times> world" where
  "read_one_body F P params conn w =
     (case execute_query F 0 (sql_select P) params conn w of
        Inl e \<Rightarrow> (Inl e, conn, w)
      | Inr cursor \<Rightarrow>
          (case fetchone F cursor of
             Inl e \<Rightarrow> (Inl e, conn, w)
           | Inr None \<Rightarrow> (Inr None, conn, log_msg DEBUG w)
           | Inr (Some r) \<Rightarrow> (Inr (Some (entry_of_row r)), conn, w)))"

definition read_one_handler ::
  "exn \<Rightarrow> world \<Rightarrow> (exn + PasswordEntry option) \<times> world" where
  "read_one_handler e w =
     (case e of
        Sqlite x \<Rightarrow> (Inr None, log_msg ERROR w)
      | UnicodeEncodeError \<Rightarrow> (Inl e, w)
      | OverflowError \<Rightarrow> (Inl e, w))"

definition read_password_by_service ::
  "faults \<Rightarrow> string \<Rightarrow> world \<Rightarrow> (exn + PasswordEntry option) \<times> world" where
  "read_password_by_service F s w =
     (case get_connection F w of
        (Inl e, w1) \<Rightarrow> read_one_handler e w1
      | (Inr conn, w1) \<Rightarrow>
          (case conn_exit F (read_one_body F (\<lambda>r. col_service r = s) [Text s] conn w1) of
             (Inl e, w2) \<Rightarrow> read_one_handler e w2
           | (Inr res, w2) \<Rightarrow> (Inr res, w2)))"

definition read_password_by_username ::
  "faults \<Rightarrow> string \<Rightarrow> world \<Rightarrow> (exn + PasswordEntry option) \<times> world" where
  "read_password_by_username F u w =
     (case get_connection F w of
        (Inl e, w1) \<Rightarrow> read_one_handler e w1
      | (Inr conn, w1) \<Rightarrow>
          (case conn_exit F (read_one_body F (\<lambda>r. col_username r = u) [Text u] conn w1) of
             (Inl e, w2) \<Rightarrow> read_one_handler e w2
           | (Inr res, w2) \<Rightarrow> (Inr res, w2)))"

subsection \<open>update_password\<close>

definition update_body ::
  "faults \<Rightarrow> string \<Rightarrow> PasswordEntry \<Rightarrow> connection \<Rightarrow> world
     \<Rightarrow> (exn + bool) \<times> connection \<times> world" where
  "update_body F s new_entry conn w =
     (case execute_dml F 0
             (sql_update (service new_entry) (username new_entry)
                (encrypted_password new_entry) s)
             [Text (service new_entry), Text (username new_entry),
              Blob (encrypted_password new_entry), Text s]
             conn w of
        (Inl e, c1) \<Rightarrow> (Inl e, c1, w)
      | (Inr rowcount, c1) \<Rightarrow>
          (case commit F c1 w of
             (Inl e, c2, w2) \<Rightarrow> (Inl e, c2, w2)
           | (Inr u, c2, w2) \<Rightarrow>
               (let success = rowcount > 0
                in (Inr success, c2, log_msg (if success then INFO else WARNING) w2))))"

definition update_handler :: "exn \<Rightarrow> world \<Rightarrow> (exn + bool) \<times> world" where
  "update_handler e w =
     (case e of
        Sqlite IntegrityError \<Rightarrow> (Inr False, log_msg ERROR w)
      | Sqlite OtherError \<Rightarrow> (Inr False, log_msg ERROR w)
      | UnicodeEncodeError \<Rightarrow> (Inl e, w)
      | OverflowError \<Rightarrow> (Inl e, w))"

definition update_password ::
  "faults \<Rightarrow> string \<Rightarrow> PasswordEntry \<Rightarrow> world \<Rightarrow> (exn + bool) \<times> world" where
  "update_password F s new_entry w =
     (case get_connection F w of
        (Inl e, w1) \<Rightarrow> update_handler e w1
      | (Inr conn, w1) \<Rightarrow>
          (case conn_exit F (update_body F s new_entry conn w1) of
             (Inl e, w2) \<Rightarrow> update_handler e w2
           | (Inr b, w2) \<Rightarrow> (Inr b, w2)))"

subsection \<open>delete_password\<close>

definition delete_body ::
  "faults \<Rightarrow> string \<Rightarrow> connection \<Rightarrow> world \<Rightarrow> (exn + bool) \<times> connection \<times> world" where
  "delete_body F s conn w =
     (case execute_dml F 0 (sql_delete s) [Text s] conn w of
        (Inl e, c1) \<Rightarrow> (Inl e, c1, w)
      | (Inr rowcount, c1) \<Rightarrow>
          (case commit F c1 w of
             (Inl e, c2, w2) \<Rightarrow> (Inl e, c2, w2)
           | (Inr u, c2, w2) \<Rightarrow>
               (let success = rowcount > 0
                in (Inr success, c2, log_msg (if success then INFO else WARNING) w2))))"

definition delete_handler :: "exn \<Rightarrow> world \<Rightarrow> (exn + bool) \<times> world" where
  "delete_handler e w =
     (case e of
        Sqlite x \<Rightarrow> (Inr False, log_msg ERROR w)
      | UnicodeEncodeError \<Rightarrow> (Inl e, w)
      | OverflowError \<Rightarrow> (Inl e, w))"

definition delete_password ::
  "faults \<Rightarrow> string \<Rightarrow> world \<Rightarrow> (exn + bool) \<times> world" where
  "delete_password F s w =
     (case get_connection F w of
        (Inl e, w1) \<Rightarrow> delete_handler e w1
      | (Inr conn, w1) \<Rightarrow>
          (case conn_exit F (delete_body F s conn w1) of
             (Inl e, w2) \<Rightarrow> delete_handler e w2
           | (Inr b, w2) \<Rightarrow> (Inr b, w2)))"

subsection \<open>Module import\<close>

text \<open>
  The module runs \<open>init_db\<close> when it is imported and, under \<open>except Exception\<close>, lets
  a failure go on to the importer after logging it.
\<close>

definition import_module :: "faults \<Rightarrow> world \<Rightarrow> (exn + unit) \<times> world" where
  "import_module F w =
     (case init_db F w of
        (Inl e, w1) \<Rightarrow> (Inl e, log_msg CRITICAL w1)
      | (Inr u, w1) \<Rightarrow> (Inr (), w1))"

section \<open>Vaults used as examples\<close>

text \<open>A file that does not exist yet, and the vault after a first import on it.\<close>

definition empty_world :: world where
  "empty_world =
     \<lparr>db = \<lparr>passwords = None, sqlite_sequence = 0, indexes = []\<rparr>,
      open_conns = [], next_handle = 0, logged = []\<rparr>"

definition new_vault :: world where
  "new_vault = snd (import_module no_faults empty_world)"

definition entry_alice :: PasswordEntry where
  "entry_alice = \<lparr>service = ''github'', username = ''alice'',
     encrypted_password = [1, 2], created_at = None\<rparr>"

definition entry_other :: PasswordEntry where
  "entry_other = \<lparr>service = ''github-new'', username = ''bob'',
     encrypted_password = [9], created_at = None\<rparr>"

definition entry_new :: PasswordEntry where
  "entry_new = \<lparr>service = ''github-new'', username = ''alice2'',
     encrypted_password = [3], created_at = None\<rparr>"

text \<open>
  The \<open>str\<close> whose only code point is the lone surrogate U+D800, and an entry whose
  service it is.
\<close>

definition lone_surrogate :: string where
  "lone_surrogate = [CHR 0xED, CHR 0xA0, CHR 0x80]"


text \<open>The vault after \<open>create_password(entry_alice)\<close> at time 100.\<close>

definition vault_alice :: world where
  "vault_alice = snd (create_password no_faults 100 entry_alice new_vault)"

text \<open>
  The vault after \<open>create_password(entry_other)\<close> at time 100 and
  \<open>create_password(entry_alice)\<close> at time 200.
\<close>

definition vault_two :: world where
  "vault_two = snd (create_password no_faults 200 entry_alice
                  (snd (create_password no_faults 100 entry_other new_vault)))"

text \<open>A file on which the schema statements of \<open>init_db\<close> have nothing left to do.\<close>

definition initialized :: "db_file \<Rightarrow> bool" where
  "initialized f =
     (passwords f \<noteq> None \<and> ''idx_service'' \<in> set (map fst (indexes f)) \<and>
      ''idx_username'' \<in> set (map fst (indexes f)))"

section \<open>Auxiliary facts\<close>

lemmas lib_defs = execute_dml_def execute_ddl_def execute_query_def fetchall_def fetchone_def
  commit_def rollback_def conn_exit_def get_connection_def view_def log_msg_def

lemmas op_defs = import_module_def init_db_def init_db_body_def create_password_def
  create_body_def create_handler_def read_all_passwords_def read_all_body_def
  read_one_body_def read_password_by_service_def read_password_by_username_def
  update_password_def update_body_def update_handler_def delete_password_def
  delete_body_def entry_of_row_def init_db_handler_def read_all_handler_def
  read_one_handler_def delete_handler_def

lemmas sql_defs = sql_create_table_def sql_create_index_def sql_insert_def sql_update_def
  sql_delete_def sql_select_def set_columns_def

lemmas bind_defs = INT_MAX_def bindable_text_def bindable_entry_def

subsection \<open>Binding\<close>

lemma bindable_entry_service: "bindable_entry e \<Longrightarrow> bindable_text (service e)"
  by (simp add: bindable_entry_def bindable_text_def split: option.splits if_splits)

lemma bind_update_params:
  "bindable_entry e \<Longrightarrow> bindable_text s \<Longrightarrow>
   bind_parameters [Text (service e), Text (username e), Blob (encrypted_password e), Text s]
     = None"
  by (simp add: bindable_entry_def bindable_text_def split: option.splits if_splits)

lemma bind_text_param: "bindable_text s \<Longrightarrow> bind_parameters [Text s] = None"
  by (simp add: bindable_text_def split: option.splits if_splits)

subsection \<open>Lists of rows\<close>

lemma no_match_map:
  "filter P rs = [] \<Longrightarrow> map (\<lambda>r. if P r then g r else r) rs = rs"
  by (induction rs) (auto split: if_splits)

lemma no_match_filter: "filter P rs = [] \<Longrightarrow> filter (\<lambda>r. \<not> P r) rs = rs"
  by (induction rs) (auto split: if_splits)

lemma passwords_same: "passwords f = Some rs \<Longrightarrow> f\<lparr>passwords := Some rs\<rparr> = f"
  by simp

lemma stored_rows_Some: "passwords (db w) = Some rs \<Longrightarrow> stored_rows w = rs"
  by (simp add: stored_rows_def)

text \<open>
  When exactly one row \<open>r\<close> has the old key and no other row has the new key, the
  rows that have the new key after the UPDATE are the rewritten \<open>r\<close> alone.
\<close>

lemma filter_new_key:
  "filter (\<lambda>x. col_service x = s) rs = [r] \<Longrightarrow>
   \<forall>x \<in> set rs. col_service x = s' \<longrightarrow> col_service x = s \<Longrightarrow>
   filter (\<lambda>x. col_service x = s')
     (map (\<lambda>x. if col_service x = s then set_columns s' u p x else x) rs) =
   [set_columns s' u p r]"
proof (induction rs)
  case Nil
  then show ?case by simp
next
  case (Cons a rs)
  show ?case
  proof (cases "col_service a = s")
    case True
    with Cons.prems(1) have a: "a = r" and none: "filter (\<lambda>x. col_service x = s) rs = []"
      by simp_all
    from none have ns: "\<forall>x \<in> set rs. col_service x \<noteq> s"
      by (simp add: filter_empty_conv)
    with Cons.prems(2) have "\<forall>x \<in> set rs. col_service x \<noteq> s'" by auto
    then have "filter (\<lambda>x. col_service x = s') rs = []"
      by (simp add: filter_empty_conv)
    moreover have "map (\<lambda>x. if col_service x = s then set_columns s' u p x else x) rs = rs"
      by (rule no_match_map [OF none])
    moreover have "col_service (set_columns s' u p a) = s'"
      by (simp add: set_columns_def)
    ultimately show ?thesis using True a by simp
  next
    case False
    with Cons.prems(2) have ne: "col_service a \<noteq> s'" by auto
    from False Cons.prems(1) have "filter (\<lambda>x. col_service x = s) rs = [r]" by simp
    moreover from Cons.prems(2) have "\<forall>x \<in> set rs. col_service x = s' \<longrightarrow> col_service x = s"
      by simp
    ultimately have "filter (\<lambda>x. col_service x = s')
        (map (\<lambda>x. if col_service x = s then set_columns s' u p x else x) rs) =
        [set_columns s' u p r]"
      by (rule Cons.IH)
    with False ne show ?thesis by simp
  qed
qed

subsection \<open>What each writing operation can do to the file\<close>

lemma create_password_cases:
  "create_password F now e w = (res, w') \<Longrightarrow>
     (res = Inr False \<and> db w' = db w) \<or>
     ((\<exists>x. res = Inl x) \<and> \<not> bindable_entry e \<and> db w' = db w) \<or>
     (res = Inr True \<and> bindable_entry e \<and> (\<exists>rs. passwords (db w) = Some rs \<and>
        passwords (db w') =
          Some (rs @ [\<lparr>col_id = Suc (fold max (map col_id rs) (sqlite_sequence (db w))),
                      col_service = service e, col_username = username e,
                      col_encrypted_password = encrypted_password e, col_created_at = now\<rparr>])))"
  by (auto simp: create_password_def create_body_def create_handler_def sql_insert_def lib_defs
        Let_def bindable_entry_def
      simp del: bind_parameters.simps
      split: option.splits sum.splits prod.splits sqlite_error.splits exn.splits if_splits)

lemma update_password_cases:
  "update_password F s e w = (res, w') \<Longrightarrow>
     (res = Inr False \<and> db w' = db w) \<or>
     ((\<exists>x. res = Inl x) \<and> db w' = db w \<and>
        bind_parameters [Text (service e), Text (username e),
          Blob (encrypted_password e), Text s] \<noteq> None) \<or>
     (res = Inr True \<and> (\<exists>rs. passwords (db w) = Some rs \<and> (\<exists>r \<in> set rs. col_service r = s) \<and>
        db w' = (db w)\<lparr>passwords := Some (map (\<lambda>r. if col_service r = s
            then set_columns (service e) (username e) (encrypted_password e) r else r) rs)\<rparr>))"
  by (auto simp: update_password_def update_body_def update_handler_def sql_update_def lib_defs Let_def
        no_match_map passwords_same filter_empty_conv
      simp del: bind_parameters.simps
      split: option.splits sum.splits prod.splits sqlite_error.splits exn.splits if_splits)

lemma delete_password_cases:
  "delete_password F s w = (res, w') \<Longrightarrow>
     (res = Inr False \<and> db w' = db w) \<or>
     ((\<exists>x. res = Inl x) \<and> db w' = db w) \<or>
     (res = Inr True \<and> (\<exists>rs. passwords (db w) = Some rs \<and> (\<exists>r \<in> set rs. col_service r = s) \<and>
        db w' = (db w)\<lparr>passwords := Some (filter (\<lambda>r. col_service r \<noteq> s) rs)\<rparr>))"
  by (auto simp: delete_password_def delete_body_def delete_handler_def sql_delete_def lib_defs
        Let_def no_match_filter passwords_same filter_empty_conv
      simp del: bind_parameters.simps
      split: option.splits sum.splits prod.splits sqlite_error.splits exn.splits if_splits)

subsection \<open>Results of the operations\<close>

lemma update_no_faults:
  "passwords (db w) = Some rs \<Longrightarrow> bindable_entry e \<Longrightarrow> bindable_text s \<Longrightarrow>
   fst (update_password no_faults s e w) = Inr (\<exists>r \<in> set rs. col_service r = s) \<and>
   passwords (db (snd (update_password no_faults s e w))) =
     Some (map (\<lambda>r. if col_service r = s
                 then set_columns (service e) (username e) (encrypted_password e) r else r) rs)"
  by (auto simp: update_password_def update_body_def sql_update_def lib_defs Let_def
        no_faults_def filter_empty_conv bind_update_params
      simp del: bind_parameters.simps)

lemma delete_result:
  "bindable_text s \<Longrightarrow>
   fst (delete_password F s w) =
     Inr (\<not> faulty F [Connect, Pragma, Prepare 0, Execute 0, Commit] \<and>
          (\<exists>r \<in> set (stored_rows w). col_service r = s))"
  by (auto simp: delete_password_def delete_body_def delete_handler_def sql_delete_def lib_defs
        Let_def faulty_def stored_rows_def filter_empty_conv bind_text_param
      simp del: bind_parameters.simps
      split: option.splits sum.splits prod.splits)

lemma read_by_service_result:
  "bindable_text s \<Longrightarrow>
   fst (read_password_by_service F s w) =
     Inr (if faulty F [Connect, Pragma, Prepare 0, Execute 0, Fetch] then None
          else case filter (\<lambda>r. col_service r = s) (stored_rows w) of
                 [] \<Rightarrow> None | r # _ \<Rightarrow> Some (entry_of_row r))"
  by (auto simp: read_password_by_service_def read_one_body_def read_one_handler_def
        sql_select_def lib_defs Let_def faulty_def stored_rows_def bind_text_param
      simp del: bind_parameters.simps
      split: option.splits sum.splits prod.splits list.splits)



lemma read_by_service_no_faults:
  "bindable_text s \<Longrightarrow>
   fst (read_password_by_service no_faults s w) =
     Inr (case filter (\<lambda>r. col_service r = s) (stored_rows w) of
            [] \<Rightarrow> None | r # _ \<Rightarrow> Some (entry_of_row r))"
  by (simp add: read_by_service_result faulty_def no_faults_def)



lemma delete_then_read:
  assumes "bindable_text s" and "fst (delete_password F s w) = Inr True"
  shows "stored_rows (snd (delete_password F s w)) =
           filter (\<lambda>r. col_service r \<noteq> s) (stored_rows w) \<and>
         fst (read_password_by_service no_faults s (snd (delete_password F s w))) = Inr None"
proof -
  obtain res w' where d: "delete_password F s w = (res, w')" by (cases "delete_password F s w")
  with assms(2) have "res = Inr True" by simp
  with delete_password_cases [OF d] obtain rs where
    "passwords (db w) = Some rs"
    "db w' = (db w)\<lparr>passwords := Some (filter (\<lambda>r. col_service r \<noteq> s) rs)\<rparr>"
    by auto
  then have "stored_rows w' = filter (\<lambda>r. col_service r \<noteq> s) (stored_rows w)"
    by (simp add: stored_rows_def)
  then show ?thesis using d assms(1)
    by (simp add: read_by_service_no_faults)
qed

lemma init_db_no_faults:
  "fst (init_db no_faults w) = Inr () \<and> initialized (db (snd (init_db no_faults w))) \<and>
   stored_rows (snd (init_db no_faults w)) = stored_rows w"
  by (auto simp: init_db_def init_db_body_def init_db_handler_def sql_create_table_def
        sql_create_index_def lib_defs no_faults_def initialized_def stored_rows_def Let_def
      split: option.splits sum.splits prod.splits)

lemma init_db_initialized:
  "initialized (db w) \<Longrightarrow> db (snd (init_db F w)) = db w"
  by (auto simp: init_db_def init_db_body_def init_db_handler_def sql_create_table_def
        sql_create_index_def lib_defs initialized_def Let_def
      split: option.splits sum.splits prod.splits)

subsection \<open>The example vaults, evaluated\<close>

lemma new_vault_eval:
  "new_vault = \<lparr>db = \<lparr>passwords = Some [], sqlite_sequence = 0,
       indexes = [(''idx_service'', ''service''), (''idx_username'', ''username'')]\<rparr>,
     open_conns = [0], next_handle = 1, logged = [INFO]\<rparr>"
  by (simp add: new_vault_def empty_world_def no_faults_def op_defs sql_defs lib_defs bind_defs)

lemma vault_alice_eval:
  "vault_alice = \<lparr>db = \<lparr>passwords = Some [\<lparr>col_id = 1, col_service = ''github'',
         col_username = ''alice'', col_encrypted_password = [1, 2], col_created_at = 100\<rparr>],
       sqlite_sequence = 1,
       indexes = [(''idx_service'', ''service''), (''idx_username'', ''username'')]\<rparr>,
     open_conns = [1, 0], next_handle = 2, logged = [INFO, SUCCESS]\<rparr>"
  by (simp add: vault_alice_def entry_alice_def new_vault_eval no_faults_def op_defs sql_defs lib_defs bind_defs)

lemma vault_two_eval:
  "vault_two = \<lparr>db = \<lparr>passwords = Some [
         \<lparr>col_id = 1, col_service = ''github-new'', col_username = ''bob'',
          col_encrypted_password = [9], col_created_at = 100\<rparr>,
         \<lparr>col_id = 2, col_service = ''github'', col_username = ''alice'',
          col_encrypted_password = [1, 2], col_created_at = 200\<rparr>],
       sqlite_sequence = 2,
       indexes = [(''idx_service'', ''service''), (''idx_username'', ''username'')]\<rparr>,
     open_conns = [2, 1, 0], next_handle = 3, logged = [INFO, SUCCESS, SUCCESS]\<rparr>"
  by (simp add: vault_two_def entry_alice_def entry_other_def new_vault_eval no_faults_def
        op_defs sql_defs lib_defs bind_defs)

section \<open>Uniqueness of the service key\<close>

text \<open>
  Claim C1 states that no sequence of create and update operations ever leaves two rows
  with the same service, because the schema of \<open>init_db\<close> makes the column unique.
  The schema declares no uniqueness: on a fresh vault, creating the same entry twice
  succeeds both times and leaves two rows whose service is \<open>github\<close>.
\<close>

theorem create_twice_stores_two_rows:
  "fst (create_password no_faults 100 entry_alice new_vault) = Inr True \<and>
   fst (create_password no_faults 200 entry_alice
          (snd (create_password no_faults 100 entry_alice new_vault))) = Inr True \<and>
   map col_service
     (stored_rows (snd (create_password no_faults 200 entry_alice
        (snd (create_password no_faults 100 entry_alice new_vault))))) =
     [''github'', ''github'']"
  by (simp add: new_vault_eval entry_alice_def no_faults_def stored_rows_def
        op_defs sql_defs lib_defs bind_defs)

text \<open>
  Claim C2 states that \<open>create_password\<close> of an entry whose service is already stored
  returns false and leaves the stored row as it was. On the vault that holds the
  \<open>github\<close> row, creating that entry again returns true: the stored row stays as it
  was, and a second row with the same service is stored after it.
\<close>

theorem create_existing_service_returns_true:
  "fst (create_password no_faults 200 entry_alice vault_alice) = Inr True \<and>
   stored_rows (snd (create_password no_faults 200 entry_alice vault_alice)) =
     stored_rows vault_alice @
       [\<lparr>col_id = 2, col_service = ''github'', col_username = ''alice'',
         col_encrypted_password = [1, 2], col_created_at = 200\<rparr>]"
  by (simp add: vault_alice_eval entry_alice_def no_faults_def stored_rows_def
        op_defs sql_defs lib_defs bind_defs)

section \<open>Round trips\<close>

text \<open>
  Claim C3: in a state with no row for the service of the entry, a create that
  succeeded, followed by \<open>read_password_by_service\<close> of that service (with no storage
  fault during the read), returns an entry with the created service, username and
  encrypted password, and with \<open>created_at\<close> populated: it is the time of the insert.
\<close>

theorem create_then_read_by_service:
  assumes fresh: "\<forall>r \<in> set (stored_rows w). col_service r \<noteq> service e"
    and ok: "create_password F now e w = (Inr True, w')"
  shows "fst (read_password_by_service no_faults (service e) w') =
           Inr (Some \<lparr>service = service e, username = username e,
                      encrypted_password = encrypted_password e, created_at = Some now\<rparr>)"
proof -
  from create_password_cases [OF ok] obtain rs where
    before: "passwords (db w) = Some rs" and
    after: "passwords (db w') =
      Some (rs @ [\<lparr>col_id = Suc (fold max (map col_id rs) (sqlite_sequence (db w))),
                  col_service = service e, col_username = username e,
                  col_encrypted_password = encrypted_password e, col_created_at = now\<rparr>])"
    by auto
  from create_password_cases [OF ok] have "bindable_entry e" by auto
  then have bt: "bindable_text (service e)" by (rule bindable_entry_service)
  from fresh before have "filter (\<lambda>r. col_service r = service e) rs = []"
    by (simp add: stored_rows_Some filter_empty_conv)
  then show ?thesis
    by (simp add: read_by_service_no_faults [OF bt] stored_rows_Some [OF after]
          entry_of_row_def)
qed

theorem create_then_read_by_service_witness:
  "fst (read_password_by_service no_faults ''github'' vault_alice) =
     Inr (Some \<lparr>service = ''github'', username = ''alice'',
                encrypted_password = [1, 2], created_at = Some 100\<rparr>)"
proof -
  have fresh: "\<forall>r \<in> set (stored_rows new_vault). col_service r \<noteq> service entry_alice"
    by (simp add: new_vault_eval stored_rows_def)
  have ok: "create_password no_faults 100 entry_alice new_vault = (Inr True, vault_alice)"
    by (simp add: vault_alice_eval entry_alice_def new_vault_eval no_faults_def
          op_defs sql_defs lib_defs bind_defs)
  from create_then_read_by_service [OF fresh ok] show ?thesis
    by (simp add: entry_alice_def)
qed

section \<open>Update\<close>

text \<open>
  Claim C4 states that, for every row keyed by service \<open>s\<close>, an update rewrites the
  row and a read of the new key then returns the new username and password with the
  row's \<open>created_at\<close>. It fails when another row already has the new key: in the
  vault holding \<open>github-new\<close> of bob (created at 100) and \<open>github\<close> of alice (created
  at 200), updating \<open>github\<close> to \<open>github-new\<close> of alice2 returns true, and the read
  of \<open>github-new\<close> returns bob's entry.
\<close>

theorem update_onto_existing_key_reads_other_row:
  "fst (update_password no_faults ''github'' entry_new vault_two) = Inr True \<and>
   fst (read_password_by_service no_faults ''github-new''
          (snd (update_password no_faults ''github'' entry_new vault_two))) =
     Inr (Some \<lparr>service = ''github-new'', username = ''bob'',
                encrypted_password = [9], created_at = Some 100\<rparr>) \<and>
   fst (read_password_by_service no_faults ''github-new''
          (snd (update_password no_faults ''github'' entry_new vault_two))) \<noteq>
     Inr (Some \<lparr>service = ''github-new'', username = ''alice2'',
                encrypted_password = [3], created_at = Some 200\<rparr>)"
  by (simp add: vault_two_eval entry_new_def no_faults_def op_defs sql_defs lib_defs bind_defs)

text \<open>
  Claim C4 as amended: when \<open>r\<close> is the only row keyed by \<open>s\<close> and no other row is
  keyed by the service of the new entry, \<open>update_password\<close> (with no storage fault,
  and with a key and a new entry that the statement can bind) returns true and
  rewrites service, username and encrypted password of that row, leaving its
  \<open>created_at\<close> (and every other row) as it was; a read of the new key then returns
  the new username and password with the \<open>created_at\<close> of \<open>r\<close>.
\<close>

theorem update_then_read_by_service:
  assumes "passwords (db w) = Some rs"
    and "filter (\<lambda>x. col_service x = s) rs = [r]"
    and "\<forall>x \<in> set rs. col_service x = service new \<longrightarrow> col_service x = s"
    and "bindable_text s"
    and "bindable_entry new"
  shows "fst (update_password no_faults s new w) = Inr True \<and>
     stored_rows (snd (update_password no_faults s new w)) =
       map (\<lambda>x. if col_service x = s
              then x\<lparr>col_service := service new, col_username := username new,
                     col_encrypted_password := encrypted_password new\<rparr>
              else x) rs \<and>
     fst (read_password_by_service no_faults (service new)
            (snd (update_password no_faults s new w))) =
       Inr (Some \<lparr>service = service new, username = username new,
                  encrypted_password = encrypted_password new,
                  created_at = Some (col_created_at r)\<rparr>)"
proof -
  from assms(2) have "r \<in> set (filter (\<lambda>x. col_service x = s) rs)" by simp
  then have ex: "\<exists>x \<in> set rs. col_service x = s" by auto
  note upd = update_no_faults [OF assms(1) assms(5) assms(4)]
  note bt = bindable_entry_service [OF assms(5)]
  from upd have rows: "stored_rows (snd (update_password no_faults s new w)) =
      map (\<lambda>x. if col_service x = s
             then set_columns (service new) (username new) (encrypted_password new) x
             else x) rs"
    by (simp add: stored_rows_def)
  from upd ex have "fst (update_password no_faults s new w) = Inr True" by simp
  moreover from rows have "stored_rows (snd (update_password no_faults s new w)) =
       map (\<lambda>x. if col_service x = s
              then x\<lparr>col_service := service new, col_username := username new,
                     col_encrypted_password := encrypted_password new\<rparr>
              else x) rs"
    by (simp add: set_columns_def)
  moreover have "fst (read_password_by_service no_faults (service new)
            (snd (update_password no_faults s new w))) =
       Inr (Some \<lparr>service = service new, username = username new,
                  encrypted_password = encrypted_password new,
                  created_at = Some (col_created_at r)\<rparr>)"
    by (simp add: read_by_service_no_faults [OF bt] rows
          filter_new_key [OF assms(2) assms(3)] entry_of_row_def set_columns_def)
  ultimately show ?thesis by simp
qed

theorem update_then_read_by_service_witness:
  "fst (update_password no_faults ''github'' entry_new vault_alice) = Inr True \<and>
   stored_rows (snd (update_password no_faults ''github'' entry_new vault_alice)) =
     [\<lparr>col_id = 1, col_service = ''github-new'', col_username = ''alice2'',
       col_encrypted_password = [3], col_created_at = 100\<rparr>] \<and>
   fst (read_password_by_service no_faults ''github-new''
          (snd (update_password no_faults ''github'' entry_new vault_alice))) =
     Inr (Some \<lparr>service = ''github-new'', username = ''alice2'',
                encrypted_password = [3], created_at = Some 100\<rparr>)"
proof -
  let ?r = "\<lparr>col_id = 1, col_service = ''github'', col_username = ''alice'',
             col_encrypted_password = [1, 2], col_created_at = 100\<rparr>"
  have h1: "passwords (db vault_alice) = Some [?r]"
    by (simp add: vault_alice_eval)
  have h2: "filter (\<lambda>x. col_service x = ''github'') [?r] = [?r]"
    by simp
  have h3: "\<forall>x \<in> set [?r]. col_service x = service entry_new \<longrightarrow> col_service x = ''github''"
    by simp
  have h4: "bindable_text ''github''"
    by (simp add: bind_defs)
  have h5: "bindable_entry entry_new"
    by (simp add: entry_new_def bind_defs)
  from update_then_read_by_service [OF h1 h2 h3 h4 h5] show ?thesis
    by (simp add: entry_new_def)
qed

section \<open>Delete\<close>

text \<open>
  Claim C5 states that \<open>delete_password\<close> returns false, without raising, on every
  service that has no row and on every failure. The handler catches
  \<open>sqlite3.Error\<close> only: in the vault whose only row is keyed by \<open>github\<close>, for the
  service that is a lone surrogate, binding the parameter raises
  \<open>UnicodeEncodeError\<close>, and the call raises it instead of returning false.
\<close>

theorem delete_password_unencodable_service_raises:
  "map col_service (stored_rows vault_alice) = [''github''] \<and>
   fst (delete_password no_faults lone_surrogate vault_alice) = Inl UnicodeEncodeError \<and>
   fst (delete_password no_faults lone_surrogate vault_alice) \<noteq> Inr False"
  by (simp add: vault_alice_eval lone_surrogate_def no_faults_def stored_rows_def
        op_defs sql_defs lib_defs bind_defs)

text \<open>
  Claim C5 as amended: for a service that the statement can bind (text without a lone
  surrogate, of at most \<open>INT_MAX\<close> bytes), \<open>delete_password\<close> returns true exactly
  when no storage call of the operation fails and a row keyed by the service exists;
  so it returns false, without raising, on a storage error and on a service that has
  no row. When it returns true, the rows keyed by the service are gone, the others
  are as they were, and a read of that service finds nothing.
\<close>

theorem delete_password_result:
  assumes "bindable_text s"
  shows "fst (delete_password F s w) =
       Inr (\<not> faulty F [Connect, Pragma, Prepare 0, Execute 0, Commit] \<and>
            (\<exists>r \<in> set (stored_rows w). col_service r = s)) \<and>
     (fst (delete_password F s w) = Inr True \<longrightarrow>
        stored_rows (snd (delete_password F s w)) =
          filter (\<lambda>r. col_service r \<noteq> s) (stored_rows w) \<and>
        fst (read_password_by_service no_faults s (snd (delete_password F s w))) = Inr None)"
  using delete_result [OF assms, of F w] delete_then_read [OF assms, of F w] by simp

theorem delete_password_result_witness:
  "fst (delete_password no_faults ''github'' vault_alice) = Inr True \<and>
   stored_rows (snd (delete_password no_faults ''github'' vault_alice)) = [] \<and>
   fst (read_password_by_service no_faults ''github''
          (snd (delete_password no_faults ''github'' vault_alice))) = Inr None \<and>
   fst (delete_password no_faults ''gitlab'' vault_alice) = Inr False \<and>
   fst (delete_password (fails_at Commit OtherError) ''github'' vault_alice) = Inr False \<and>
   fst (delete_password (fails_at (Prepare 0) OtherError) ''github'' vault_alice) = Inr False"
proof -
  have hub: "bindable_text ''github''" and lab: "bindable_text ''gitlab''"
    by (simp_all add: bind_defs)
  from delete_password_result [OF hub, of no_faults vault_alice]
    delete_password_result [OF lab, of no_faults vault_alice]
    delete_password_result [OF hub, of "fails_at Commit OtherError" vault_alice]
    delete_password_result [OF hub, of "fails_at (Prepare 0) OtherError" vault_alice]
  show ?thesis
    by (simp add: faulty_def no_faults_def fails_at_def stored_rows_def vault_alice_eval)
qed

section \<open>Failures\<close>




text \<open>
  Claim C7: whenever \<open>create_password\<close>, \<open>update_password\<close> or \<open>delete_password\<close>
  returns false, the database file, and so the stored rows, are as they were before
  the call.
\<close>

theorem failed_write_leaves_rows:
  "(fst (create_password F now e w) = Inr False \<longrightarrow>
      db (snd (create_password F now e w)) = db w \<and>
      stored_rows (snd (create_password F now e w)) = stored_rows w) \<and>
   (fst (update_password F s e w) = Inr False \<longrightarrow>
      db (snd (update_password F s e w)) = db w \<and>
      stored_rows (snd (update_password F s e w)) = stored_rows w) \<and>
   (fst (delete_password F s w) = Inr False \<longrightarrow>
      db (snd (delete_password F s w)) = db w \<and>
      stored_rows (snd (delete_password F s w)) = stored_rows w)"
  using create_password_cases [of F now e w "fst (create_password F now e w)"
      "snd (create_password F now e w)"]
    update_password_cases [of F s e w "fst (update_password F s e w)"
      "snd (update_password F s e w)"]
    delete_password_cases [of F s w "fst (delete_password F s w)"
      "snd (delete_password F s w)"]
  by (auto simp: stored_rows_def)

theorem failed_write_leaves_rows_witness:
  "fst (create_password (fails_at Commit OtherError) 200 entry_new vault_alice) = Inr False \<and>
   stored_rows (snd (create_password (fails_at Commit OtherError) 200 entry_new vault_alice)) =
     stored_rows vault_alice \<and>
   fst (update_password no_faults ''gitlab'' entry_new vault_alice) = Inr False \<and>
   stored_rows (snd (update_password no_faults ''gitlab'' entry_new vault_alice)) =
     stored_rows vault_alice \<and>
   fst (delete_password (fails_at (Execute 0) OtherError) ''github'' vault_alice) = Inr False \<and>
   stored_rows (snd (delete_password (fails_at (Execute 0) OtherError) ''github'' vault_alice)) =
     stored_rows vault_alice"
proof -
  have c: "fst (create_password (fails_at Commit OtherError) 200 entry_new vault_alice) = Inr False"
    by (simp add: vault_alice_eval entry_new_def fails_at_def op_defs sql_defs lib_defs bind_defs)
  have u: "fst (update_password no_faults ''gitlab'' entry_new vault_alice) = Inr False"
    by (simp add: vault_alice_eval entry_new_def no_faults_def op_defs sql_defs lib_defs bind_defs)
  have d: "fst (delete_password (fails_at (Execute 0) OtherError) ''github'' vault_alice) = Inr False"
    by (simp add: vault_alice_eval fails_at_def op_defs sql_defs lib_defs bind_defs)
  from c u d
    failed_write_leaves_rows [of "fails_at Commit OtherError" 200 entry_new vault_alice
      "''gitlab''"]
    failed_write_leaves_rows [of no_faults 200 entry_new vault_alice "''gitlab''"]
    failed_write_leaves_rows [of "fails_at (Execute 0) OtherError" 200 entry_new vault_alice
      "''github''"]
  show ?thesis by blast
qed

section \<open>Schema initialization\<close>

text \<open>
  Claim C8: on every database state, \<open>init_db\<close> (with no storage fault) raises
  nothing, leaves the file initialized and keeps the rows of the table; a second call
  raises nothing and leaves the file exactly as the first call left it, so it creates
  no further table or index. On a file that is already initialized, \<open>init_db\<close>
  changes nothing in the file, whatever happens to the call.
\<close>

theorem init_db_idempotent:
  "fst (init_db no_faults w) = Inr () \<and>
   initialized (db (snd (init_db no_faults w))) \<and>
   stored_rows (snd (init_db no_faults w)) = stored_rows w \<and>
   fst (init_db no_faults (snd (init_db no_faults w))) = Inr () \<and>
   db (snd (init_db no_faults (snd (init_db no_faults w)))) = db (snd (init_db no_faults w)) \<and>
   (initialized (db w) \<longrightarrow> db (snd (init_db F w)) = db w)"
  using init_db_no_faults [of w] init_db_no_faults [of "snd (init_db no_faults w)"]
    init_db_initialized [of "snd (init_db no_faults w)" no_faults]
    init_db_initialized [of w F]
  by simp

theorem init_db_idempotent_witness:
  "initialized (db vault_alice) \<and>
   db (snd (init_db no_faults vault_alice)) = db vault_alice \<and>
   db (snd (init_db (fails_at (Execute 1) OtherError) vault_alice)) = db vault_alice"
proof -
  have i: "initialized (db vault_alice)"
    by (simp add: initialized_def vault_alice_eval)
  from i init_db_idempotent [of vault_alice no_faults]
    init_db_idempotent [of vault_alice "fails_at (Execute 1) OtherError"]
  show ?thesis by blast
qed

section \<open>Connections\<close>

text \<open>
  Claim C9 states that every CRUD operation releases the connection it acquired on
  every exit path. No operation closes its connection: leaving \<open>with conn:\<close> commits
  or rolls back only. After \<open>create_password\<close> the handle that \<open>get_connection\<close>
  opened is still among the open connections, on the path that succeeds and on the
  path where the insert raises \<open>IntegrityError\<close>.
\<close>

theorem create_password_leaves_connection_open:
  "open_conns (snd (create_password no_faults now e w)) = next_handle w # open_conns w \<and>
   open_conns (snd (create_password (fails_at (Execute 0) IntegrityError) now e w)) =
     next_handle w # open_conns w"
  by (auto simp: create_password_def create_body_def create_handler_def sql_insert_def lib_defs
        no_faults_def fails_at_def Let_def
      simp del: bind_parameters.simps
      split: option.splits sum.splits prod.splits exn.splits sqlite_error.splits)

section \<open>Reads\<close>

text \<open>
  Claim C10: \<open>read_all_passwords\<close>, \<open>read_password_by_service\<close> and
  \<open>read_password_by_username\<close> leave the database file, and so every stored row with
  its \<open>created_at\<close>, exactly as it was, for every state, argument and storage fault.
\<close>

theorem reads_leave_rows_unchanged:
  "db (snd (read_all_passwords F w)) = db w \<and>
   db (snd (read_password_by_service F s w)) = db w \<and>
   db (snd (read_password_by_username F u w)) = db w \<and>
   stored_rows (snd (read_all_passwords F w)) = stored_rows w \<and>
   stored_rows (snd (read_password_by_service F s w)) = stored_rows w \<and>
   stored_rows (snd (read_password_by_username F u w)) = stored_rows w"
proof -
  have a: "db (snd (read_all_passwords F w)) = db w"
    by (auto simp: read_all_passwords_def read_all_body_def read_all_handler_def
          sql_select_def lib_defs Let_def
        split: option.splits sum.splits prod.splits list.splits exn.splits)
  have b: "db (snd (read_password_by_service F s w)) = db w"
    by (auto simp: read_password_by_service_def read_one_body_def read_one_handler_def
          sql_select_def lib_defs Let_def
        simp del: bind_parameters.simps
        split: option.splits sum.splits prod.splits list.splits exn.splits)
  have c: "db (snd (read_password_by_username F u w)) = db w"
    by (auto simp: read_password_by_username_def read_one_body_def read_one_handler_def
          sql_select_def lib_defs Let_def
        simp del: bind_parameters.simps
        split: option.splits sum.splits prod.splits list.splits exn.splits)
  from a b c show ?thesis by (simp add: stored_rows_def)
qed

end
